theory Spec2Isabelle
  imports Main
begin

section \<open>Errors\<close>

text \<open>
  Every exception the modelled code can raise is a value. The string carried by an
  exception is its message, \<^verbatim>\<open>str(e)\<close>.
\<close>

datatype error =
    RuntimeError string
  | JSONDecodeError string
  | ValueError string
  | TypeError string
  | AttributeError string
  | IntegrityError string
  | DatabaseError string
  | OtherError string

fun message :: "error \<Rightarrow> string" where
  "message (RuntimeError m) = m"
| "message (JSONDecodeError m) = m"
| "message (ValueError m) = m"
| "message (TypeError m) = m"
| "message (AttributeError m) = m"
| "message (IntegrityError m) = m"
| "message (DatabaseError m) = m"
| "message (OtherError m) = m"

section \<open>Time\<close>

text \<open>
  An aware UTC \<^verbatim>\<open>datetime\<close> is the number of microseconds since the epoch, an
  \<^typ>\<open>int\<close>; a \<^verbatim>\<open>timedelta\<close> is a number of microseconds. \<^verbatim>\<open>now.second\<close> is the
  second of the minute (Python's datetime has no leap seconds).
\<close>

type_synonym datetime = int

definition timedelta_minutes :: "int \<Rightarrow> int" where
  "timedelta_minutes m = m * 60 * 1000000"

definition second :: "datetime \<Rightarrow> int" where
  "second t = (t div 1000000) mod 60"

section \<open>scheduler.py: the refresh-need check\<close>

definition MAX_SYNC_SCHEDULE_INTERVAL :: int where
  "MAX_SYNC_SCHEDULE_INTERVAL = 5"

text \<open>
  The fields of \<^verbatim>\<open>DatabaseScheduler\<close> that \<^verbatim>\<open>_need_update\<close> reads:
  \<^verbatim>\<open>max_interval\<close> (seconds) and \<^verbatim>\<open>_last_updated_at\<close> (\<^verbatim>\<open>None\<close> until the first
  refresh).
\<close>

record scheduler =
  max_interval :: int
  last_updated_at :: "datetime option"

text \<open>
  \<^verbatim>\<open>_need_update\<close> reads the wall clock (\<open>now\<close>) and the change clock,
  \<^verbatim>\<open>ModelMeta.get_last_updated_at()\<close>, which is \<^verbatim>\<open>scalars().first()\<close>: the timestamp of
  the meta row with id 1, or \<^verbatim>\<open>None\<close> when there is no such row. Python's \<^verbatim>\<open>or\<close> is
  evaluated left to right and stops at the first true operand; comparing a datetime
  with \<^verbatim>\<open>None\<close> raises \<^verbatim>\<open>TypeError\<close>.
\<close>

definition need_update :: "scheduler \<Rightarrow> datetime \<Rightarrow> datetime option \<Rightarrow> error + bool" where
  "need_update self now meta_last_updated_at =
     (if max_interval self < 30 \<and> ((0 \<le> second now \<and> second now < 20) \<or> second now > 50)
      then Inr False
      else
        let sync_threshold = now - timedelta_minutes MAX_SYNC_SCHEDULE_INTERVAL in
        (case last_updated_at self of
           None \<Rightarrow> Inr True
         | Some lu \<Rightarrow>
             if lu < sync_threshold then Inr True
             else (case meta_last_updated_at of
                     None \<Rightarrow> Inl (TypeError ''< not supported between instances of datetime.datetime and NoneType'')
                   | Some c \<Rightarrow> if lu < c then Inr True else Inr False)))"

section \<open>Python values\<close>

text \<open>
  The values that \<^verbatim>\<open>json.loads\<close> returns and that a beat schedule holds as task
  arguments. A dictionary is the list of its items in insertion order; its keys are
  strings (JSON object keys, keyword-argument names). A character of the model is a
  code point below 256. Floating-point values are outside the model.
\<close>

datatype py_value =
    PyNone
  | PyBool bool
  | PyInt int
  | PyStr string
  | PyList "py_value list"
  | PyDict "(string \<times> py_value) list"

text \<open>\<^verbatim>\<open>sep.join(xs)\<close>\<close>

fun join :: "string \<Rightarrow> string list \<Rightarrow> string" where
  "join sep [] = []"
| "join sep [x] = x"
| "join sep (x # y # ys) = x @ sep @ join sep (y # ys)"

text \<open>Decimal rendering of integers, as \<^verbatim>\<open>str\<close> gives it.\<close>

fun str_nat :: "nat \<Rightarrow> string" where
  "str_nat n =
     (if n < 10 then [''0123456789'' ! n]
      else str_nat (n div 10) @ [''0123456789'' ! (n mod 10)])"

declare str_nat.simps [simp del]

definition str_int :: "int \<Rightarrow> string" where
  "str_int i = (if i < 0 then CHR ''-'' # str_nat (nat (- i)) else str_nat (nat i))"

text \<open>
  \<^verbatim>\<open>repr\<close> of a string: single quotes, unless the string holds a single quote and no
  double quote; the quote and the backslash are escaped, as are the control and
  non-printable characters.
\<close>

definition squote :: char where "squote = CHR 0x27"
definition dquote :: char where "dquote = CHR 0x22"
definition backslash :: char where "backslash = CHR 0x5C"

definition hex2 :: "nat \<Rightarrow> string" where
  "hex2 n = [''0123456789abcdef'' ! (n div 16 mod 16), ''0123456789abcdef'' ! (n mod 16)]"

definition repr_char :: "char \<Rightarrow> char \<Rightarrow> string" where
  "repr_char q c =
     (let n = (of_char c :: nat) in
      if c = q \<or> c = backslash then [backslash, c]
      else if n = 9 then [backslash, CHR ''t'']
      else if n = 10 then [backslash, CHR ''n'']
      else if n = 13 then [backslash, CHR ''r'']
      else if n < 32 \<or> n = 127 \<or> (128 \<le> n \<and> n \<le> 160) \<or> n = 173
        then [backslash, CHR ''x''] @ hex2 n
      else [c])"

definition repr_str :: "string \<Rightarrow> string" where
  "repr_str s =
     (let q = (if squote \<in> set s \<and> dquote \<notin> set s then dquote else squote)
      in [q] @ concat (map (repr_char q) s) @ [q])"

fun py_repr :: "py_value \<Rightarrow> string" where
  "py_repr PyNone = ''None''"
| "py_repr (PyBool b) = (if b then ''True'' else ''False'')"
| "py_repr (PyInt i) = str_int i"
| "py_repr (PyStr s) = repr_str s"
| "py_repr (PyList xs) = ''['' @ join '', '' (map py_repr xs) @ '']''"
| "py_repr (PyDict kvs) =
     ''{'' @ join '', '' (map (\<lambda>(k, v). repr_str k @ '': '' @ py_repr v) kvs) @ ''}''"

text \<open>\<^verbatim>\<open>str(v)\<close>, also what an f-string puts for \<^verbatim>\<open>{v}\<close>.\<close>

fun py_str :: "py_value \<Rightarrow> string" where
  "py_str (PyStr s) = s"
| "py_str v = py_repr v"

text \<open>Truth value, as \<^verbatim>\<open>x or y\<close> and \<^verbatim>\<open>x if c else y\<close> test it.\<close>

fun truthy :: "py_value \<Rightarrow> bool" where
  "truthy PyNone = False"
| "truthy (PyBool b) = b"
| "truthy (PyInt i) = (i \<noteq> 0)"
| "truthy (PyStr s) = (s \<noteq> [])"
| "truthy (PyList xs) = (xs \<noteq> [])"
| "truthy (PyDict kvs) = (kvs \<noteq> [])"

text \<open>
  Iteration (\<^verbatim>\<open>map(str, args)\<close>, \<^verbatim>\<open>*args\<close>): a list gives its elements, a string its
  characters, a dictionary its keys; the other values raise \<^verbatim>\<open>TypeError\<close>.
\<close>

fun py_iter :: "py_value \<Rightarrow> error + py_value list" where
  "py_iter (PyList xs) = Inr xs"
| "py_iter (PyStr s) = Inr (map (\<lambda>c. PyStr [c]) s)"
| "py_iter (PyDict kvs) = Inr (map (\<lambda>kv. PyStr (fst kv)) kvs)"
| "py_iter v = Inl (TypeError ''object is not iterable'')"

text \<open>\<^verbatim>\<open>kwargs.items()\<close>: only a dictionary has the method.\<close>

fun py_items :: "py_value \<Rightarrow> error + (string \<times> py_value) list" where
  "py_items (PyDict kvs) = Inr kvs"
| "py_items v = Inl (AttributeError ''object has no attribute items'')"

section \<open>utils.py: the entry key\<close>

text \<open>\<^verbatim>\<open>s.strip("-")\<close>\<close>

definition strip_dash :: "string \<Rightarrow> string" where
  "strip_dash s =
     rev (dropWhile (\<lambda>c. c = CHR ''-'') (rev (dropWhile (\<lambda>c. c = CHR ''-'') s)))"

text \<open>
  The character class of the regular expression in \<^verbatim>\<open>get_task_key\<close>:
  the two square brackets, the two parentheses, the two braces, the comma, the space,
  the single quote and the double quote.
\<close>

definition removed_chars :: "char set" where
  "removed_chars =
     {CHR ''['', CHR '']'', CHR ''('', CHR '')'', CHR ''{'', CHR ''}'', CHR '','', CHR '' '',
      squote, dquote}"

text \<open>\<^verbatim>\<open>re.sub(r"[\[\](){}, '\"]", "", s)\<close>: every character of the class is deleted.\<close>

definition re_sub_removed :: "string \<Rightarrow> string" where
  "re_sub_removed s = filter (\<lambda>c. c \<notin> removed_chars) s"

definition get_task_key :: "string \<Rightarrow> py_value \<Rightarrow> py_value \<Rightarrow> error + string" where
  "get_task_key name args kwargs =
     (case py_iter args of
        Inl e \<Rightarrow> Inl e
      | Inr xs \<Rightarrow>
          (case py_items kwargs of
             Inl e \<Rightarrow> Inl e
           | Inr kvs \<Rightarrow>
               let args' = join ''-'' (map py_str xs);
                   kwargs' = join ''-'' (map (\<lambda>(k, v). k @ ''-'' @ py_str v) kvs)
               in Inr (re_sub_removed (strip_dash (name @ ''-'' @ args' @ ''-'' @ kwargs')))))"

text \<open>The key format named by the comment in \<^verbatim>\<open>get_task_key\<close>: \<^verbatim>\<open>0-9a-zA-Z_-.\<close>\<close>

definition key_format_char :: "char \<Rightarrow> bool" where
  "key_format_char c =
     (let n = (of_char c :: nat) in
      (48 \<le> n \<and> n \<le> 57) \<or> (97 \<le> n \<and> n \<le> 122) \<or> (65 \<le> n \<and> n \<le> 90)
      \<or> c = CHR ''_'' \<or> c = CHR ''.'' \<or> c = CHR ''-'')"

section \<open>The schedule table and the change clock\<close>

text \<open>
  The columns of \<^verbatim>\<open>celery_tasks_schedule\<close> that the code writes and reads; they are
  also the fields of \<^verbatim>\<open>CeleryTasksScheduleDbSchema\<close>. The primary key \<^verbatim>\<open>id\<close> is the
  first component of a stored row; \<^verbatim>\<open>created_at\<close> and \<^verbatim>\<open>updated_at\<close> are filled by the
  database and read by no modelled operation.
\<close>

record schedule_row =
  task_key :: string
  task :: string
  args :: string
  kwargs :: string
  schedule :: string
  enabled :: bool
  comment :: "string option"

text \<open>
  The committed state of the store: the rows of \<^verbatim>\<open>celery_tasks_schedule\<close> with their ids,
  and \<^verbatim>\<open>last_updated_at\<close> of the row with id 1 of \<^verbatim>\<open>celery_tasks_schedule_meta\<close>
  (\<open>None\<close> when the row does not exist). No code touches another meta row.
\<close>

record db =
  celery_tasks_schedule :: "(int \<times> schedule_row) list"
  celery_tasks_schedule_meta :: "datetime option"

subsection \<open>celery\_tasks\_schedule\_meta.py\<close>

text \<open>
  Each method opens a session of its own (\<^verbatim>\<open>db_sessionmaker()\<close> connects anew) and
  a transaction (\<^verbatim>\<open>session.begin()\<close>) that is committed when the \<^verbatim>\<open>with\<close> block ends:
  the method takes the committed state to the committed state.
\<close>

definition init_last_updated_at :: "datetime \<Rightarrow> db \<Rightarrow> db" where
  "init_last_updated_at now d =
     (case celery_tasks_schedule_meta d of
        None \<Rightarrow> d\<lparr>celery_tasks_schedule_meta := Some now\<rparr>
      | Some entry \<Rightarrow> d)"

text \<open>\<^verbatim>\<open>UPDATE ... WHERE id = 1\<close> changes nothing when there is no such row.\<close>

definition update_last_updated_at :: "datetime \<Rightarrow> db \<Rightarrow> db" where
  "update_last_updated_at now d =
     (case celery_tasks_schedule_meta d of
        None \<Rightarrow> d
      | Some old \<Rightarrow> d\<lparr>celery_tasks_schedule_meta := Some now\<rparr>)"

definition get_last_updated_at :: "db \<Rightarrow> datetime option" where
  "get_last_updated_at d = celery_tasks_schedule_meta d"

subsection \<open>Statements on the schedule table\<close>

text \<open>
  The database assigns the ids; the model takes the successors of the greatest id
  stored. \<^verbatim>\<open>task_key\<close> is declared \<^verbatim>\<open>unique=True\<close>: a statement that would leave two rows
  with one key fails with \<^verbatim>\<open>IntegrityError\<close> and changes nothing. (The foreign key on
  \<^verbatim>\<open>task\<close> is not modelled.)
\<close>

definition keys_of :: "(int \<times> schedule_row) list \<Rightarrow> string list" where
  "keys_of rows = map (\<lambda>r. task_key (snd r)) rows"

definition next_id :: "(int \<times> schedule_row) list \<Rightarrow> int" where
  "next_id rows = fold max (map fst rows) 0 + 1"

definition execute_insert ::
  "schedule_row list \<Rightarrow> (int \<times> schedule_row) list \<Rightarrow> error + (int \<times> schedule_row) list" where
  "execute_insert params rows =
     (if distinct (keys_of rows @ map task_key params)
      then Inr (rows @ zip (map (\<lambda>i. next_id rows + int i) [0..<length params]) params)
      else Inl (IntegrityError ''UNIQUE constraint failed: celery_tasks_schedule.task_key''))"

definition execute_update ::
  "int \<Rightarrow> schedule_row \<Rightarrow> (int \<times> schedule_row) list \<Rightarrow> error + (int \<times> schedule_row) list" where
  "execute_update i r rows =
     (if i \<notin> set (map fst rows) then Inl (OtherError ''StaleDataError'')
      else
        let rows' = map (\<lambda>x. if fst x = i then (i, r) else x) rows in
        if distinct (keys_of rows') then Inr rows'
        else Inl (IntegrityError ''UNIQUE constraint failed: celery_tasks_schedule.task_key''))"

definition execute_delete :: "int \<Rightarrow> (int \<times> schedule_row) list \<Rightarrow> (int \<times> schedule_row) list" where
  "execute_delete i rows = filter (\<lambda>x. fst x \<noteq> i) rows"

subsection \<open>celery\_tasks\_schedule.py: the class methods\<close>

text \<open>
  \<^verbatim>\<open>bulk_insert\<close> runs in one transaction: \<open>Inr\<close> is the committed state after it, and
  \<open>Inl\<close> the exception that leaves the block, the transaction rolled back and the store
  as it was. The rows are passed to \<^verbatim>\<open>session.execute(insert(cls)..., [...])\<close>, a
  statement and not a flush of mapped objects, so no mapper event handler runs.
\<close>

definition bulk_insert_params :: "schedule_row list \<Rightarrow> db \<Rightarrow> schedule_row list" where
  "bulk_insert_params data d =
     (let existing_entries = set (keys_of (celery_tasks_schedule d));
          entries_to_insert = set (map task_key data);
          missing_entries = entries_to_insert - existing_entries
      in filter (\<lambda>x. task_key x \<in> missing_entries) data)"

definition bulk_insert :: "schedule_row list \<Rightarrow> db \<Rightarrow> error + db" where
  "bulk_insert data d =
     (let existing_entries = set (keys_of (celery_tasks_schedule d));
          entries_to_insert = set (map task_key data);
          missing_entries = entries_to_insert - existing_entries
      in if missing_entries \<noteq> {}
         then (case execute_insert (bulk_insert_params data d) (celery_tasks_schedule d) of
                 Inl e \<Rightarrow> Inl e
               | Inr rows \<Rightarrow> Inr (d\<lparr>celery_tasks_schedule := rows\<rparr>))
         else Inr d)"

definition select_all_tasks :: "db \<Rightarrow> string list" where
  "select_all_tasks d = map (\<lambda>r. task (snd r)) (celery_tasks_schedule d)"

definition select_enabled_entries :: "db \<Rightarrow> schedule_row list" where
  "select_enabled_entries d = filter enabled (map snd (celery_tasks_schedule d))"

text \<open>\<^verbatim>\<open>CeleryTasksScheduleModel.delete\<close>, a \<^verbatim>\<open>DELETE ... WHERE task IN (...)\<close> statement.\<close>

definition schedule_delete :: "string list \<Rightarrow> db \<Rightarrow> db" where
  "schedule_delete tasks d =
     d\<lparr>celery_tasks_schedule := filter (\<lambda>r. task (snd r) \<notin> set tasks) (celery_tasks_schedule d)\<rparr>"

section \<open>The libraries the code calls\<close>

text \<open>
  Three things the code calls are not part of it, and are parameters of the model; the
  theorems hold for every choice of them.
  \<^item> \<open>app_tasks\<close> is the task registry \<^verbatim>\<open>celery_app.tasks\<close>, from task names to tasks. Of
    a task only \<^verbatim>\<open>__header__\<close> is used: \<open>None\<close> when the task has no such attribute,
    else the signature check, which answers with the exception it raises, if any.
  \<^item> \<open>json_loads\<close> is \<^verbatim>\<open>json.loads\<close> on a string: the value, or \<open>Inl\<close> the message of the
    \<^verbatim>\<open>JSONDecodeError\<close>.
  \<^item> \<open>crontab\<close> is the constructor \<^verbatim>\<open>celery.schedules.crontab\<close>, taking \<^verbatim>\<open>minute\<close>,
    \<^verbatim>\<open>hour\<close>, \<^verbatim>\<open>day_of_week\<close>, \<^verbatim>\<open>day_of_month\<close>, \<^verbatim>\<open>month_of_year\<close> in this order: the
    schedule object, of a type \<open>'c\<close>, or the exception of a field that does not parse.
\<close>

type_synonym header = "py_value list \<Rightarrow> (string \<times> py_value) list \<Rightarrow> error option"

record 'c env =
  app_tasks :: "string \<rightharpoonup> header option"
  json_loads :: "string \<Rightarrow> string + py_value"
  crontab :: "string \<Rightarrow> string \<Rightarrow> string \<Rightarrow> string \<Rightarrow> string \<Rightarrow> error + 'c"

text \<open>
  \<^verbatim>\<open>s.split()\<close>: the maximal runs of characters that are not whitespace. The
  whitespace characters below 256 are 9 to 13, 28 to 32, 133 and 160.
\<close>

definition is_space :: "char \<Rightarrow> bool" where
  "is_space c =
     (let n = (of_char c :: nat) in (9 \<le> n \<and> n \<le> 13) \<or> (28 \<le> n \<and> n \<le> 32) \<or> n = 133 \<or> n = 160)"

fun split_from :: "string \<Rightarrow> string \<Rightarrow> string list" where
  "split_from cur [] = (if cur = [] then [] else [cur])"
| "split_from cur (c # cs) =
     (if is_space c then (if cur = [] then split_from [] cs else cur # split_from [] cs)
      else split_from (cur @ [c]) cs)"

definition py_split :: "string \<Rightarrow> string list" where
  "py_split s = split_from [] s"

text \<open>
  \<^verbatim>\<open>minute, hour, day_of_month, month_of_year, day_of_week = ....split()\<close>: anything
  but five fields raises \<^verbatim>\<open>ValueError\<close>.
\<close>

definition unpack5 :: "string list \<Rightarrow> error + (string \<times> string \<times> string \<times> string \<times> string)" where
  "unpack5 xs =
     (case xs of
        [a, b, c, d, e] \<Rightarrow> Inr (a, b, c, d, e)
      | _ \<Rightarrow> Inl (ValueError (if length xs < 5 then ''not enough values to unpack (expected 5)''
                              else ''too many values to unpack (expected 5)'')))"

text \<open>
  The two statements that \<^verbatim>\<open>before_validator\<close> and \<^verbatim>\<open>_model_to_entry\<close> share: the
  unpacking of the split schedule string and the call of \<^verbatim>\<open>crontab\<close> with the keywords.
\<close>

definition schedule_to_crontab :: "'c env \<Rightarrow> string \<Rightarrow> error + 'c" where
  "schedule_to_crontab env s =
     (case unpack5 (py_split s) of
        Inl e \<Rightarrow> Inl e
      | Inr (minute, hour, day_of_month, month_of_year, day_of_week) \<Rightarrow>
          crontab env minute hour day_of_week day_of_month month_of_year)"

section \<open>celery\_tasks\_schedule.py: validation and the event handlers\<close>

text \<open>
  \<^verbatim>\<open>check_arguments(*(args or ()), **(kwargs or {}))\<close>: a false value is replaced by
  the empty tuple or dictionary; \<^verbatim>\<open>*\<close> iterates its operand, \<^verbatim>\<open>**\<close> needs a mapping.
\<close>

definition star_args :: "py_value \<Rightarrow> error + py_value list" where
  "star_args v = (if truthy v then py_iter v else Inr [])"

definition star_kwargs :: "py_value \<Rightarrow> error + (string \<times> py_value) list" where
  "star_kwargs v =
     (if truthy v
      then (case v of PyDict kvs \<Rightarrow> Inr kvs
                    | _ \<Rightarrow> Inl (TypeError ''argument after ** must be a mapping''))
      else Inr [])"

definition check_header :: "header option \<Rightarrow> py_value \<Rightarrow> py_value \<Rightarrow> error option" where
  "check_header task_obj a k =
     (case task_obj of
        None \<Rightarrow> None
      | Some check_arguments \<Rightarrow>
          (case star_args a of
             Inl e \<Rightarrow> Some e
           | Inr xs \<Rightarrow>
               (case star_kwargs k of
                  Inl e \<Rightarrow> Some e
                | Inr kvs \<Rightarrow> check_arguments xs kvs)))"

text \<open>
  \<^verbatim>\<open>before_validator\<close> raises or sets \<^verbatim>\<open>target.task_key\<close>: the result is the
  exception or the target as the handler leaves it.
\<close>

definition before_validator :: "'c env \<Rightarrow> schedule_row \<Rightarrow> error + schedule_row" where
  "before_validator env target =
     (case app_tasks env (task target) of
        None \<Rightarrow> Inl (RuntimeError (''Task '' @ [squote] @ task target @ [squote] @ '' does not exist''))
      | Some task_obj \<Rightarrow>
          (case json_loads env (args target) of
             Inl m \<Rightarrow> Inl (RuntimeError (''Invalid format for task positional arguments: '' @ m))
           | Inr a \<Rightarrow>
               (case json_loads env (kwargs target) of
                  Inl m \<Rightarrow> Inl (RuntimeError (''Invalid format for task keyword arguments: '' @ m))
                | Inr k \<Rightarrow>
                    (case check_header task_obj a k of
                       Some e \<Rightarrow> Inl e
                     | None \<Rightarrow>
                         (case schedule_to_crontab env (schedule target) of
                            Inl e \<Rightarrow> Inl (RuntimeError (''Invalid schedule: '' @ message e))
                          | Inr c \<Rightarrow>
                              (case get_task_key (task target) a k of
                                 Inl e \<Rightarrow> Inl e
                               | Inr key \<Rightarrow> Inr (target\<lparr>task_key := key\<rparr>)))))))"

definition before_insert_handler :: "'c env \<Rightarrow> schedule_row \<Rightarrow> error + schedule_row" where
  "before_insert_handler env target = before_validator env target"

definition before_update_handler :: "'c env \<Rightarrow> schedule_row \<Rightarrow> error + schedule_row" where
  "before_update_handler env target = before_validator env target"

definition after_insert_handler :: "datetime \<Rightarrow> db \<Rightarrow> db" where
  "after_insert_handler now d = update_last_updated_at now d"

definition after_update_handler :: "datetime \<Rightarrow> db \<Rightarrow> db" where
  "after_update_handler now d = update_last_updated_at now d"

definition after_delete_handler :: "datetime \<Rightarrow> db \<Rightarrow> db" where
  "after_delete_handler now d = update_last_updated_at now d"

subsection \<open>The flush of a mapped object\<close>

text \<open>
  The handlers are mapper events: the session calls them when it flushes a new, a
  changed or a deleted mapped object (the administration view writes this way), before
  and after the statement it emits for the object. The statement runs in the session's
  transaction: its effect is pending until that transaction commits, and is dropped if
  it rolls back. The \<^verbatim>\<open>after_\<close> handlers call \<^verbatim>\<open>update_last_updated_at\<close>, which commits in
  a session of its own: they act on the committed state.
\<close>

record txn =
  committed :: db
  pending :: "(int \<times> schedule_row) list"

definition begin_txn :: "db \<Rightarrow> txn" where
  "begin_txn d = \<lparr>committed = d, pending = celery_tasks_schedule d\<rparr>"

definition commit :: "txn \<Rightarrow> db" where
  "commit t = (committed t)\<lparr>celery_tasks_schedule := pending t\<rparr>"

definition rollback :: "txn \<Rightarrow> db" where
  "rollback t = committed t"

datatype orm_change =
    OrmInsert schedule_row
  | OrmUpdate int schedule_row
  | OrmDelete int

text \<open>An exception leaves the flush at once: what would follow does not run.\<close>

fun flush :: "'c env \<Rightarrow> datetime \<Rightarrow> orm_change \<Rightarrow> txn \<Rightarrow> error + txn" where
  "flush env now (OrmInsert target) t =
     (case before_insert_handler env target of
        Inl e \<Rightarrow> Inl e
      | Inr target' \<Rightarrow>
          (case execute_insert [target'] (pending t) of
             Inl e \<Rightarrow> Inl e
           | Inr rows \<Rightarrow>
               Inr \<lparr>committed = after_insert_handler now (committed t), pending = rows\<rparr>))"
| "flush env now (OrmUpdate i target) t =
     (case before_update_handler env target of
        Inl e \<Rightarrow> Inl e
      | Inr target' \<Rightarrow>
          (case execute_update i target' (pending t) of
             Inl e \<Rightarrow> Inl e
           | Inr rows \<Rightarrow>
               Inr \<lparr>committed = after_update_handler now (committed t), pending = rows\<rparr>))"
| "flush env now (OrmDelete i) t =
     Inr \<lparr>committed = after_delete_handler now (committed t),
          pending = execute_delete i (pending t)\<rparr>"

text \<open>
  A write through the ORM, flushed and committed; an exception rolls the session's
  transaction back and the store is as it was.
\<close>

definition orm_write :: "'c env \<Rightarrow> datetime \<Rightarrow> orm_change \<Rightarrow> db \<Rightarrow> error + db" where
  "orm_write env now change d =
     (case flush env now change (begin_txn d) of
        Inl e \<Rightarrow> Inl e
      | Inr t \<Rightarrow> Inr (commit t))"

section \<open>scheduler.py: the reload\<close>

text \<open>
  The fields of a \<^verbatim>\<open>celery.beat.ScheduleEntry\<close> that \<^verbatim>\<open>_model_to_entry\<close> gives. The
  constructor, reached through \<^verbatim>\<open>_maybe_entry\<close>, keeps \<^verbatim>\<open>args\<close> and replaces a false
  \<^verbatim>\<open>kwargs\<close> by the empty dictionary; it raises nothing. The bookkeeping fields
  (\<^verbatim>\<open>last_run_at\<close>, \<^verbatim>\<open>total_run_count\<close>, \<^verbatim>\<open>options\<close>) are not modelled.
\<close>

record 'c ScheduleEntry =
  entry_name :: string
  entry_task :: string
  entry_args :: py_value
  entry_kwargs :: py_value
  entry_schedule :: 'c

definition maybe_entry :: "string \<Rightarrow> string \<Rightarrow> py_value \<Rightarrow> py_value \<Rightarrow> 'c \<Rightarrow> 'c ScheduleEntry" where
  "maybe_entry name t a k s =
     \<lparr>entry_name = name, entry_task = t, entry_args = a,
      entry_kwargs = (if truthy k then k else PyDict []), entry_schedule = s\<rparr>"

definition model_to_entry :: "'c env \<Rightarrow> schedule_row \<Rightarrow> error + 'c ScheduleEntry" where
  "model_to_entry env model =
     (case json_loads env (args model) of
        Inl m \<Rightarrow> Inl (JSONDecodeError m)
      | Inr a \<Rightarrow>
          (case json_loads env (kwargs model) of
             Inl m \<Rightarrow> Inl (JSONDecodeError m)
           | Inr k \<Rightarrow>
               (case schedule_to_crontab env (schedule model) of
                  Inl e \<Rightarrow> Inl e
                | Inr s \<Rightarrow> Inr (maybe_entry (task_key model) (task model) a k s))))"

text \<open>
  The loop of \<^verbatim>\<open>_get_enabled_tasks\<close>, with the dictionary \<^verbatim>\<open>entries\<close> and the messages
  passed to \<^verbatim>\<open>error(...)\<close>, the log, as its state. \<^verbatim>\<open>except Exception\<close> catches every
  exception of \<^verbatim>\<open>_model_to_entry\<close>.
\<close>

fun get_enabled_loop ::
  "'c env \<Rightarrow> schedule_row list \<Rightarrow> (string \<rightharpoonup> 'c ScheduleEntry) \<times> string list
     \<Rightarrow> (string \<rightharpoonup> 'c ScheduleEntry) \<times> string list" where
  "get_enabled_loop env [] st = st"
| "get_enabled_loop env (row # rows) (entries, log) =
     (case model_to_entry env row of
        Inr entry \<Rightarrow> get_enabled_loop env rows (entries(task_key row \<mapsto> entry), log)
      | Inl e \<Rightarrow> get_enabled_loop env rows (entries, log @ [message e]))"

definition get_enabled_tasks :: "'c env \<Rightarrow> db \<Rightarrow> (string \<rightharpoonup> 'c ScheduleEntry) \<times> string list" where
  "get_enabled_tasks env d = get_enabled_loop env (select_enabled_entries d) (Map.empty, [])"

section \<open>scheduler.py: the schema bootstrap\<close>

definition PREPARE_MODELS_MAX_RETRIES :: nat where
  "PREPARE_MODELS_MAX_RETRIES = 10"

text \<open>
  \<^verbatim>\<open>celery.utils.time.get_exponential_backoff_interval(factor, retries, maximum,
  full_jitter)\<close>: the least of \<^verbatim>\<open>maximum\<close> and \<^verbatim>\<open>factor * 2 ** retries\<close>, replaced with full
  jitter by \<^verbatim>\<open>random.randrange(countdown + 1)\<close>. The random source is the last argument:
  a number \<open>r\<close>, of which \<open>randrange n\<close> gives \<open>r mod n\<close>.
\<close>

definition get_exponential_backoff_interval :: "nat \<Rightarrow> nat \<Rightarrow> nat \<Rightarrow> bool \<Rightarrow> nat \<Rightarrow> nat" where
  "get_exponential_backoff_interval factor retries maximum full_jitter r =
     (let countdown = min maximum (factor * 2 ^ retries);
          countdown' = (if full_jitter then r mod (countdown + 1) else countdown)
      in max 0 countdown')"

text \<open>
  \<^verbatim>\<open>except DatabaseError\<close> catches \<^verbatim>\<open>sqlalchemy.exc.DatabaseError\<close> and its subclasses,
  of which \<^verbatim>\<open>IntegrityError\<close> is one.
\<close>

fun is_DatabaseError :: "error \<Rightarrow> bool" where
  "is_DatabaseError (DatabaseError m) = True"
| "is_DatabaseError (IntegrityError m) = True"
| "is_DatabaseError e = False"

text \<open>
  What a run of the loop in \<^verbatim>\<open>_prepare_models\<close> leaves: the exception that leaves the
  loop, if any, the number of calls of \<^verbatim>\<open>create_all\<close>, and the sleeps in milliseconds.
\<close>

record bootstrap =
  raised :: "error option"
  calls :: nat
  sleeps :: "nat list"

text \<open>
  The environment is \<open>create_all\<close>, the outcome of each call of
  \<^verbatim>\<open>metadata.create_all(engine)\<close> by its number from 0 (\<open>None\<close>: it returns), and \<open>rnd\<close>,
  the random number drawn at each retry. The state of the loop is \<open>retries\<close>, with the
  calls made and the sleeps slept so far.
\<close>

function prepare_models_loop ::
  "(nat \<Rightarrow> error option) \<Rightarrow> (nat \<Rightarrow> nat) \<Rightarrow> nat \<Rightarrow> nat \<Rightarrow> nat list \<Rightarrow> bootstrap" where
  "prepare_models_loop create_all rnd retries n sl =
     (case create_all n of
        None \<Rightarrow> \<lparr>raised = None, calls = n + 1, sleeps = sl\<rparr>
      | Some e \<Rightarrow>
          if is_DatabaseError e then
            (if retries < PREPARE_MODELS_MAX_RETRIES
             then prepare_models_loop create_all rnd (retries + 1) (n + 1)
                    (sl @ [get_exponential_backoff_interval 10 retries 1000 True (rnd retries)])
             else \<lparr>raised = Some e, calls = n + 1, sleeps = sl\<rparr>)
          else \<lparr>raised = Some e, calls = n + 1, sleeps = sl\<rparr>)"
  by pat_completeness auto
termination
  by (relation "measure (\<lambda>(create_all, rnd, retries, n, sl). PREPARE_MODELS_MAX_RETRIES - retries)")
     auto

declare prepare_models_loop.simps [simp del]

text \<open>
  \<^verbatim>\<open>_prepare_models\<close>: the loop from \<^verbatim>\<open>retries = 0\<close>, then
  \<^verbatim>\<open>init_last_updated_at\<close>, which an exception leaving the loop skips.
\<close>

definition prepare_models ::
  "(nat \<Rightarrow> error option) \<Rightarrow> (nat \<Rightarrow> nat) \<Rightarrow> datetime \<Rightarrow> db \<Rightarrow> bootstrap \<times> db" where
  "prepare_models create_all rnd now d =
     (let b = prepare_models_loop create_all rnd 0 0 [] in
      (b, case raised b of None \<Rightarrow> init_last_updated_at now d | Some e \<Rightarrow> d))"

section \<open>The invariant of the stored key\<close>

text \<open>
  A row keeps the invariant when its \<^verbatim>\<open>task_key\<close> is \<^verbatim>\<open>get_task_key\<close> of its task and of
  its \<^verbatim>\<open>args\<close> and \<^verbatim>\<open>kwargs\<close> as \<^verbatim>\<open>json.loads\<close> reads them.
\<close>

definition key_invariant :: "'c env \<Rightarrow> schedule_row \<Rightarrow> bool" where
  "key_invariant env r =
     (case json_loads env (args r) of
        Inl m \<Rightarrow> False
      | Inr a \<Rightarrow>
          (case json_loads env (kwargs r) of
             Inl m \<Rightarrow> False
           | Inr k \<Rightarrow> get_task_key (task r) a k = Inr (task_key r)))"

section \<open>An environment for the examples\<close>

text \<open>
  Stand-ins for the libraries, to run the model on concrete rows. \<open>example_json_loads\<close>
  knows three texts and rejects every other; \<open>example_crontab\<close> knows two forms of a
  field, the star and a number in the range of the field, and rejects every other, as
  \<^verbatim>\<open>crontab\<close> rejects a field it cannot parse. The registry holds one task,
  \<^verbatim>\<open>send_email\<close>, whose header takes any arguments.
\<close>

definition example_json_loads :: "string \<Rightarrow> string + py_value" where
  "example_json_loads s =
     (if s = ''[]'' then Inr (PyList [])
      else if s = ''{}'' then Inr (PyDict [])
      else if s = ''[1, 2]'' then Inr (PyList [PyInt 1, PyInt 2])
      else Inl ''Expecting value'')"

definition digits_to_nat :: "string \<Rightarrow> nat" where
  "digits_to_nat s = fold (\<lambda>c n. 10 * n + (of_char c - 48)) s 0"

definition is_digit :: "char \<Rightarrow> bool" where
  "is_digit c = (let n = (of_char c :: nat) in 48 \<le> n \<and> n \<le> 57)"

definition field_ok :: "nat \<Rightarrow> nat \<Rightarrow> string \<Rightarrow> bool" where
  "field_ok lo hi f =
     (f = ''*'' \<or> (f \<noteq> [] \<and> list_all is_digit f \<and> lo \<le> digits_to_nat f \<and> digits_to_nat f \<le> hi))"

type_synonym example_schedule = "string \<times> string \<times> string \<times> string \<times> string"

definition example_crontab ::
  "string \<Rightarrow> string \<Rightarrow> string \<Rightarrow> string \<Rightarrow> string \<Rightarrow> error + example_schedule" where
  "example_crontab minute hour day_of_week day_of_month month_of_year =
     (if field_ok 0 59 minute \<and> field_ok 0 23 hour \<and> field_ok 0 6 day_of_week
         \<and> field_ok 1 31 day_of_month \<and> field_ok 1 12 month_of_year
      then Inr (minute, hour, day_of_week, day_of_month, month_of_year)
      else Inl (ValueError ''Invalid crontab field''))"

definition example_env :: "example_schedule env" where
  "example_env =
     \<lparr>app_tasks = [''send_email'' \<mapsto> Some (\<lambda>xs kvs. None)],
      json_loads = example_json_loads,
      crontab = example_crontab\<rparr>"

definition example_row :: "string \<Rightarrow> string \<Rightarrow> string \<Rightarrow> schedule_row" where
  "example_row key t s =
     \<lparr>task_key = key, task = t, args = ''[]'', kwargs = ''{}'', schedule = s,
      enabled = True, comment = None\<rparr>"

section \<open>The refresh-need check\<close>

text \<open>
  Claim C1. \<^verbatim>\<open>_need_update\<close> returns true exactly when the tick is not suppressed by
  the quiet window and at least one of these holds: no refresh has occurred yet
  (\<^verbatim>\<open>_last_updated_at\<close> is unset), the last refresh is more than 5 minutes old, or the
  last refresh is older than the stored change-clock timestamp. Consequently, while
  \<^verbatim>\<open>_last_updated_at\<close> is at or after the change clock and not more than 5 minutes
  old, the check returns false: no refresh until the clock advances or the threshold
  elapses.
\<close>

theorem need_update_iff:
  "(need_update self now clock = Inr True \<longleftrightarrow>
      \<not> (max_interval self < 30 \<and> ((0 \<le> second now \<and> second now < 20) \<or> second now > 50)) \<and>
      (last_updated_at self = None
       \<or> (\<exists>lu. last_updated_at self = Some lu \<and> now - lu > timedelta_minutes 5)
       \<or> (\<exists>lu c. last_updated_at self = Some lu \<and> clock = Some c \<and> lu < c)))
   \<and> (\<forall>lu c. last_updated_at self = Some lu \<and> clock = Some c \<and> c \<le> lu
          \<and> now - lu \<le> timedelta_minutes 5
        \<longrightarrow> need_update self now clock = Inr False)"
  by (auto simp: need_update_def MAX_SYNC_SCHEDULE_INTERVAL_def Let_def
           split: option.splits)

text \<open>
  At second 25 of a minute, with a polling interval of 5 seconds and a refresh 45 seconds
  old: a change clock before the refresh asks for no refresh, one after it does.
\<close>

theorem need_update_iff_witness:
  "need_update \<lparr>max_interval = 5, last_updated_at = Some 100000000\<rparr> 145000000 (Some 90000000)
     = Inr False
   \<and> need_update \<lparr>max_interval = 5, last_updated_at = Some 100000000\<rparr> 145000000 (Some 120000000)
     = Inr True"
  using need_update_iff [of "\<lparr>max_interval = 5, last_updated_at = Some 100000000\<rparr>" 145000000 "Some 90000000"]
        need_update_iff [of "\<lparr>max_interval = 5, last_updated_at = Some 100000000\<rparr>" 145000000 "Some 120000000"]
  by (simp add: timedelta_minutes_def second_def)

text \<open>
  Claim C2. With a polling interval below 30 seconds, a tick whose wall-clock second
  lies in [0,20) or (50,60) never asks for a refresh, whatever the change clock and the
  age of the last refresh; a tick at second 25 is decided by the staleness rules alone.
\<close>

theorem quiet_window:
  "(max_interval self < 30 \<and> ((0 \<le> second now \<and> second now < 20) \<or> (50 < second now \<and> second now < 60))
      \<longrightarrow> need_update self now clock = Inr False)
   \<and> (second now = 25 \<longrightarrow>
        (need_update self now clock = Inr True \<longleftrightarrow>
           last_updated_at self = None
           \<or> (\<exists>lu. last_updated_at self = Some lu \<and> now - lu > timedelta_minutes 5)
           \<or> (\<exists>lu c. last_updated_at self = Some lu \<and> clock = Some c \<and> lu < c)))"
  by (auto simp: need_update_def MAX_SYNC_SCHEDULE_INTERVAL_def Let_def
           split: option.splits)

text \<open>
  The example of the specification: polling every 10 seconds, a stale change clock; the
  tick at second 55 asks for no refresh, the tick at second 25 does.
\<close>

theorem quiet_window_witness:
  "need_update \<lparr>max_interval = 10, last_updated_at = Some 0\<rparr> 115000000 (Some 80000000)
     = Inr False
   \<and> need_update \<lparr>max_interval = 10, last_updated_at = Some 0\<rparr> 85000000 (Some 80000000)
     = Inr True"
  using quiet_window [of "\<lparr>max_interval = 10, last_updated_at = Some 0\<rparr>" 115000000 "Some 80000000"]
        quiet_window [of "\<lparr>max_interval = 10, last_updated_at = Some 0\<rparr>" 85000000 "Some 80000000"]
  by (simp add: timedelta_minutes_def second_def)

section \<open>The entry key\<close>

text \<open>
  Claim C6. Every character of the string that \<^verbatim>\<open>get_task_key\<close> returns lies in
  \<^verbatim>\<open>[0-9a-zA-Z_.-]\<close>. The code deletes the ten characters of its character class and
  keeps every other: for the task \<^verbatim>\<open>send_email\<close> with the arguments
  \<^verbatim>\<open>["a@x.com", 2]\<close> and \<^verbatim>\<open>{"urgent": True}\<close> the key holds the character \<^verbatim>\<open>@\<close>, which
  is outside the format.
\<close>

theorem get_task_key_at_sign:
  "get_task_key ''send_email'' (PyList [PyStr ''a@x.com'', PyInt 2]) (PyDict [(''urgent'', PyBool True)])
     = Inr ''send_email-a@x.com-2-urgent-True''
   \<and> CHR ''@'' \<in> set ''send_email-a@x.com-2-urgent-True''
   \<and> \<not> key_format_char (CHR ''@'')"
  by code_simp

text \<open>
  What the code does give: no character of the class (bracket, parenthesis, brace,
  comma, space, quote) is left in a key.
\<close>

lemma get_task_key_removed_chars:
  "get_task_key name a k = Inr s \<Longrightarrow> set s \<inter> removed_chars = {}"
  by (auto simp: get_task_key_def re_sub_removed_def Let_def split: sum.splits)

text \<open>
  Claim C7, as stated: two \<^verbatim>\<open>kwargs\<close> mappings with the same pairs give the same key,
  whatever the insertion order. The code joins the items in insertion order: the
  mappings \<^verbatim>\<open>{"a": 1, "b": 2}\<close> and \<^verbatim>\<open>{"b": 2, "a": 1}\<close> hold the same pairs and give
  two keys.
\<close>

theorem get_task_key_order_counterexample:
  "set [(''a'', PyInt 1), (''b'', PyInt 2)] = set [(''b'', PyInt 2), (''a'', PyInt 1)]
   \<and> get_task_key ''t'' (PyList []) (PyDict [(''a'', PyInt 1), (''b'', PyInt 2)]) = Inr ''t--a-1-b-2''
   \<and> get_task_key ''t'' (PyList []) (PyDict [(''b'', PyInt 2), (''a'', PyInt 1)]) = Inr ''t--b-2-a-1''
   \<and> ''t--a-1-b-2'' \<noteq> ''t--b-2-a-1''"
  by code_simp

text \<open>
  Claim C7, amended. The key is a function of the task name, of the strings of the
  \<^verbatim>\<open>args\<close> in order, and of the keys and the strings of the values of the \<^verbatim>\<open>kwargs\<close>
  in insertion order: two inputs that agree on these give the same key.
\<close>

theorem get_task_key_canonical:
  assumes "map py_str xs1 = map py_str xs2"
    and "map (\<lambda>kv. (fst kv, py_str (snd kv))) kvs1 = map (\<lambda>kv. (fst kv, py_str (snd kv))) kvs2"
  shows "get_task_key name (PyList xs1) (PyDict kvs1) = get_task_key name (PyList xs2) (PyDict kvs2)"
proof -
  have "map ((\<lambda>p. fst p @ ''-'' @ snd p) \<circ> (\<lambda>kv. (fst kv, py_str (snd kv)))) kvs1
      = map ((\<lambda>p. fst p @ ''-'' @ snd p) \<circ> (\<lambda>kv. (fst kv, py_str (snd kv)))) kvs2"
    using assms(2) by (metis map_map)
  then have "map (\<lambda>(k, v). k @ ''-'' @ py_str v) kvs1 = map (\<lambda>(k, v). k @ ''-'' @ py_str v) kvs2"
    by (simp add: comp_def case_prod_unfold)
  with assms(1) show ?thesis
    by (simp add: get_task_key_def)
qed

text \<open>The number 1 and the string \<^verbatim>\<open>"1"\<close>, \<^verbatim>\<open>True\<close> and \<^verbatim>\<open>"True"\<close> give one key.\<close>

theorem get_task_key_canonical_witness:
  "get_task_key ''t'' (PyList [PyInt 1]) (PyDict [(''a'', PyBool True)])
     = get_task_key ''t'' (PyList [PyStr ''1'']) (PyDict [(''a'', PyStr ''True'')])"
  by (rule get_task_key_canonical) (simp_all add: str_int_def str_nat.simps)

section \<open>Bulk insert\<close>

text \<open>
  Claim C5. \<^verbatim>\<open>bulk_insert\<close> inserts the rows whose key is not stored, and of two
  entries of the batch with one key the later is a duplicate and is not inserted. The
  code compares the keys of the batch with the stored keys only: two entries of the
  batch with one new key are both passed to the \<^verbatim>\<open>INSERT\<close>, which the unique constraint
  on \<^verbatim>\<open>task_key\<close> refuses, and nothing is inserted.
\<close>

theorem bulk_insert_batch_duplicate:
  "bulk_insert_params [example_row ''t'' ''t'' ''0 * * * *'', example_row ''t'' ''t'' ''30 * * * *'']
       \<lparr>celery_tasks_schedule = [], celery_tasks_schedule_meta = Some 0\<rparr>
     = [example_row ''t'' ''t'' ''0 * * * *'', example_row ''t'' ''t'' ''30 * * * *'']
   \<and> bulk_insert [example_row ''t'' ''t'' ''0 * * * *'', example_row ''t'' ''t'' ''30 * * * *'']
       \<lparr>celery_tasks_schedule = [], celery_tasks_schedule_meta = Some 0\<rparr>
     = Inl (IntegrityError ''UNIQUE constraint failed: celery_tasks_schedule.task_key'')"
  by (simp add: bulk_insert_def bulk_insert_params_def execute_insert_def keys_of_def example_row_def)

section \<open>Validation on write\<close>

text \<open>What a validation that passes returns: the target, with the key recomputed.\<close>

lemma before_validator_Inr:
  assumes "before_validator env target = Inr target'"
  shows "key_invariant env target' \<and> target' = target\<lparr>task_key := task_key target'\<rparr>"
  using assms
  by (auto simp: before_validator_def key_invariant_def split: option.splits sum.splits)

text \<open>The key the caller supplied is not read.\<close>

lemma before_validator_ignores_key:
  "before_validator env (target\<lparr>task_key := supplied\<rparr>) = before_validator env target"
  by (simp add: before_validator_def split: option.splits sum.splits)


text \<open>What a flush that succeeds leaves pending.\<close>

lemma flush_insert_Inr:
  assumes "flush env now (OrmInsert target) t = Inr t'"
  shows "\<exists>target'. before_validator env target = Inr target'
           \<and> pending t' = pending t @ [(next_id (pending t), target')]"
  using assms
  by (auto simp: before_insert_handler_def execute_insert_def split: sum.splits if_splits)

lemma flush_update_Inr:
  assumes "flush env now (OrmUpdate i target) t = Inr t'"
  shows "\<exists>target'. before_validator env target = Inr target'
           \<and> pending t' = map (\<lambda>x. if fst x = i then (i, target') else x) (pending t)
           \<and> i \<in> set (map fst (pending t))"
  using assms
  by (auto simp: before_update_handler_def execute_update_def Let_def split: sum.splits if_splits)

lemma flush_delete_Inr:
  assumes "flush env now (OrmDelete i) t = Inr t'"
  shows "pending t' = filter (\<lambda>x. fst x \<noteq> i) (pending t)"
  using assms by (auto simp: execute_delete_def)

lemma flush_keeps_invariant:
  assumes "flush env now ch t = Inr t'"
    and "\<forall>x\<in>set (pending t). key_invariant env (snd x)"
  shows "\<forall>x\<in>set (pending t'). key_invariant env (snd x)"
proof (cases ch)
  case (OrmInsert target)
  with assms(1) obtain target' where v: "before_validator env target = Inr target'"
    and p: "pending t' = pending t @ [(next_id (pending t), target')]"
    using flush_insert_Inr by blast
  from v have "key_invariant env target'" using before_validator_Inr by blast
  with p assms(2) show ?thesis by auto
next
  case (OrmUpdate i target)
  with assms(1) obtain target' where v: "before_validator env target = Inr target'"
    and p: "pending t' = map (\<lambda>x. if fst x = i then (i, target') else x) (pending t)"
    using flush_update_Inr by blast
  from v have "key_invariant env target'" using before_validator_Inr by blast
  with p assms(2) show ?thesis by auto
next
  case (OrmDelete i)
  with assms(1) have "pending t' = filter (\<lambda>x. fst x \<noteq> i) (pending t)"
    using flush_delete_Inr by blast
  with assms(2) show ?thesis by auto
qed






text \<open>
  Claim C10. On every insert or update that passes validation, the validator sets
  \<^verbatim>\<open>task_key\<close> to \<^verbatim>\<open>get_task_key\<close> of the task and the parsed \<^verbatim>\<open>args\<close> and \<^verbatim>\<open>kwargs\<close>,
  whatever key the caller supplied, and changes no other field; the row that the flush
  stores is the validated one, so the rows written this way keep the invariant of the
  stored key.
\<close>

theorem validator_sets_key:
  "(before_validator env target = Inr target' \<longrightarrow>
      key_invariant env target' \<and> target' = target\<lparr>task_key := task_key target'\<rparr>)
   \<and> before_validator env (target\<lparr>task_key := supplied\<rparr>) = before_validator env target
   \<and> (flush env now (OrmInsert target) t = Inr t' \<longrightarrow>
        (\<exists>r. pending t' = pending t @ [(next_id (pending t), r)]
           \<and> before_validator env target = Inr r \<and> key_invariant env r))
   \<and> (flush env now (OrmUpdate i target) t = Inr t' \<longrightarrow>
        (\<exists>r. pending t' = map (\<lambda>x. if fst x = i then (i, r) else x) (pending t)
           \<and> (i, r) \<in> set (pending t')
           \<and> before_validator env target = Inr r \<and> key_invariant env r))
   \<and> (flush env now ch t = Inr t' \<and> (\<forall>x\<in>set (pending t). key_invariant env (snd x)) \<longrightarrow>
        (\<forall>x\<in>set (pending t'). key_invariant env (snd x)))"
proof (intro conjI impI)
  assume "before_validator env target = Inr target'"
  then show "key_invariant env target'" and "target' = target\<lparr>task_key := task_key target'\<rparr>"
    using before_validator_Inr by blast+
next
  show "before_validator env (target\<lparr>task_key := supplied\<rparr>) = before_validator env target"
    by (rule before_validator_ignores_key)
next
  assume "flush env now (OrmInsert target) t = Inr t'"
  then obtain r where "before_validator env target = Inr r"
    and "pending t' = pending t @ [(next_id (pending t), r)]"
    using flush_insert_Inr by blast
  then show "\<exists>r. pending t' = pending t @ [(next_id (pending t), r)]
           \<and> before_validator env target = Inr r \<and> key_invariant env r"
    using before_validator_Inr by blast
next
  assume "flush env now (OrmUpdate i target) t = Inr t'"
  then obtain r where v: "before_validator env target = Inr r"
    and p: "pending t' = map (\<lambda>x. if fst x = i then (i, r) else x) (pending t)"
    and m: "i \<in> set (map fst (pending t))"
    using flush_update_Inr by blast
  from m p have "(i, r) \<in> set (pending t')" by force
  with v p show "\<exists>r. pending t' = map (\<lambda>x. if fst x = i then (i, r) else x) (pending t)
           \<and> (i, r) \<in> set (pending t')
           \<and> before_validator env target = Inr r \<and> key_invariant env r"
    using before_validator_Inr by blast
next
  assume "flush env now ch t = Inr t' \<and> (\<forall>x\<in>set (pending t). key_invariant env (snd x))"
  then show "\<forall>x\<in>set (pending t'). key_invariant env (snd x)"
    using flush_keeps_invariant by blast
qed

text \<open>The caller supplies the key \<^verbatim>\<open>supplied\<close>; the validator stores \<^verbatim>\<open>send_email-1-2\<close>.\<close>

theorem validator_sets_key_witness:
  "before_validator example_env ((example_row ''supplied'' ''send_email'' ''0 3 * * 1'')\<lparr>args := ''[1, 2]''\<rparr>)
     = Inr ((example_row ''send_email-1-2'' ''send_email'' ''0 3 * * 1'')\<lparr>args := ''[1, 2]''\<rparr>)
   \<and> key_invariant example_env ((example_row ''send_email-1-2'' ''send_email'' ''0 3 * * 1'')\<lparr>args := ''[1, 2]''\<rparr>)"
proof -
  have h: "before_validator example_env ((example_row ''supplied'' ''send_email'' ''0 3 * * 1'')\<lparr>args := ''[1, 2]''\<rparr>)
     = Inr ((example_row ''send_email-1-2'' ''send_email'' ''0 3 * * 1'')\<lparr>args := ''[1, 2]''\<rparr>)"
    by code_simp
  have k: "key_invariant example_env ((example_row ''send_email-1-2'' ''send_email'' ''0 3 * * 1'')\<lparr>args := ''[1, 2]''\<rparr>)"
    using validator_sets_key [of example_env
       "(example_row ''supplied'' ''send_email'' ''0 3 * * 1'')\<lparr>args := ''[1, 2]''\<rparr>"
       "(example_row ''send_email-1-2'' ''send_email'' ''0 3 * * 1'')\<lparr>args := ''[1, 2]''\<rparr>",
       THEN conjunct1, rule_format, OF h]
    by (rule conjunct1)
  from h k show ?thesis by (rule conjI)
qed

section \<open>The reload\<close>

text \<open>A row fails to become an entry exactly when its JSON or its crontab does not parse.\<close>

lemma model_to_entry_isl:
  "isl (model_to_entry env r) \<longleftrightarrow>
     isl (json_loads env (args r)) \<or> isl (json_loads env (kwargs r))
     \<or> isl (schedule_to_crontab env (schedule r))"
  by (simp add: model_to_entry_def split: sum.splits)

text \<open>
  The loop, from any state: the rows that become entries are added to the dictionary,
  a later row replacing an earlier one of the same key, and each other row adds its
  message to the log.
\<close>

lemma get_enabled_loop_eq:
  "get_enabled_loop env rows (entries, log) =
     (entries ++ map_of (rev (map (\<lambda>r. (task_key r, projr (model_to_entry env r)))
                                (filter (\<lambda>r. \<not> isl (model_to_entry env r)) rows))),
      log @ map (\<lambda>r. message (projl (model_to_entry env r)))
              (filter (\<lambda>r. isl (model_to_entry env r)) rows))"
proof (induction rows arbitrary: entries log)
  case Nil
  then show ?case by simp
next
  case (Cons row rows)
  show ?case
  proof (cases "model_to_entry env row")
    case (Inl e)
    then show ?thesis by (simp add: Cons.IH)
  next
    case (Inr entry)
    have step: "entries ++ map_of (rev ((task_key row, entry) # ps))
                  = entries(task_key row \<mapsto> entry) ++ map_of (rev ps)"
      for ps :: "(string \<times> 'a ScheduleEntry) list"
      by (rule ext) (simp add: map_add_def split: option.splits)
    have "get_enabled_loop env (row # rows) (entries, log)
            = get_enabled_loop env rows (entries(task_key row \<mapsto> entry), log)"
      using Inr by simp
    also have "\<dots> =
       (entries(task_key row \<mapsto> entry)
          ++ map_of (rev (map (\<lambda>r. (task_key r, projr (model_to_entry env r)))
                           (filter (\<lambda>r. \<not> isl (model_to_entry env r)) rows))),
        log @ map (\<lambda>r. message (projl (model_to_entry env r)))
                (filter (\<lambda>r. isl (model_to_entry env r)) rows))"
      by (rule Cons.IH)
    also have "\<dots> =
       (entries ++ map_of (rev (map (\<lambda>r. (task_key r, projr (model_to_entry env r)))
                                (filter (\<lambda>r. \<not> isl (model_to_entry env r)) (row # rows)))),
        log @ map (\<lambda>r. message (projl (model_to_entry env r)))
                (filter (\<lambda>r. isl (model_to_entry env r)) (row # rows)))"
      using Inr by (simp add: step del: rev.simps map_of_append)
    finally show ?thesis .
  qed
qed

text \<open>
  Claim C4. For any enabled rows, some of them malformed (a crontab string or JSON
  \<^verbatim>\<open>args\<close>/\<^verbatim>\<open>kwargs\<close> that do not parse), the schedule that \<^verbatim>\<open>_get_enabled_tasks\<close>
  rebuilds holds exactly the entries of the valid rows, under their keys; one error is
  logged for each bad row; and the reload raises nothing: it is a total function whose
  result is the schedule and the log.
\<close>

theorem reload_skips_bad_rows:
  "fst (get_enabled_tasks env d)
     = map_of (rev (map (\<lambda>r. (task_key r, projr (model_to_entry env r)))
                      (filter (\<lambda>r. \<not> isl (model_to_entry env r)) (select_enabled_entries d))))
   \<and> snd (get_enabled_tasks env d)
     = map (\<lambda>r. message (projl (model_to_entry env r)))
         (filter (\<lambda>r. isl (model_to_entry env r)) (select_enabled_entries d))
   \<and> dom (fst (get_enabled_tasks env d))
     = task_key ` {r \<in> set (select_enabled_entries d). \<not> isl (model_to_entry env r)}
   \<and> length (snd (get_enabled_tasks env d))
     = length (filter (\<lambda>r. isl (model_to_entry env r)) (select_enabled_entries d))
   \<and> (isl (model_to_entry env r) \<longleftrightarrow>
        isl (json_loads env (args r)) \<or> isl (json_loads env (kwargs r))
        \<or> isl (schedule_to_crontab env (schedule r)))"
proof -
  have eq: "get_enabled_tasks env d =
     (map_of (rev (map (\<lambda>r. (task_key r, projr (model_to_entry env r)))
                     (filter (\<lambda>r. \<not> isl (model_to_entry env r)) (select_enabled_entries d)))),
      map (\<lambda>r. message (projl (model_to_entry env r)))
         (filter (\<lambda>r. isl (model_to_entry env r)) (select_enabled_entries d)))"
    by (simp add: get_enabled_tasks_def get_enabled_loop_eq)
  have d: "dom (fst (get_enabled_tasks env d))
     = task_key ` {r \<in> set (select_enabled_entries d). \<not> isl (model_to_entry env r)}"
    unfolding eq by (force simp: dom_map_of_conv_image_fst)
  show ?thesis
    using d model_to_entry_isl [of env r] by (simp add: eq)
qed

text \<open>Four valid rows and the row \<^verbatim>\<open>c\<close>, whose minute field is 61: four entries, one error.\<close>

theorem reload_skips_bad_rows_witness:
  "snd (get_enabled_tasks example_env
      \<lparr>celery_tasks_schedule =
          [(1, example_row ''a'' ''send_email'' ''* * * * *''),
           (2, example_row ''b'' ''send_email'' ''0 3 * * 1''),
           (3, example_row ''c'' ''send_email'' ''61 * * * *''),
           (4, example_row ''d'' ''send_email'' ''30 12 1 1 *''),
           (5, example_row ''e'' ''send_email'' ''5 * * * *'')],
        celery_tasks_schedule_meta = Some 0\<rparr>)
     = [''Invalid crontab field'']
   \<and> map (\<lambda>k. fst (get_enabled_tasks example_env
      \<lparr>celery_tasks_schedule =
          [(1, example_row ''a'' ''send_email'' ''* * * * *''),
           (2, example_row ''b'' ''send_email'' ''0 3 * * 1''),
           (3, example_row ''c'' ''send_email'' ''61 * * * *''),
           (4, example_row ''d'' ''send_email'' ''30 12 1 1 *''),
           (5, example_row ''e'' ''send_email'' ''5 * * * *'')],
        celery_tasks_schedule_meta = Some 0\<rparr>) k \<noteq> None) [''a'', ''b'', ''c'', ''d'', ''e'']
     = [True, True, False, True, True]"
proof -
  let ?d = "\<lparr>celery_tasks_schedule =
          [(1, example_row ''a'' ''send_email'' ''* * * * *''),
           (2, example_row ''b'' ''send_email'' ''0 3 * * 1''),
           (3, example_row ''c'' ''send_email'' ''61 * * * *''),
           (4, example_row ''d'' ''send_email'' ''30 12 1 1 *''),
           (5, example_row ''e'' ''send_email'' ''5 * * * *'')],
        celery_tasks_schedule_meta = Some 0\<rparr>"
  have f: "map (\<lambda>r. message (projl (model_to_entry example_env r)))
         (filter (\<lambda>r. isl (model_to_entry example_env r)) (select_enabled_entries ?d))
       = [''Invalid crontab field'']"
    by code_simp
  have a: "snd (get_enabled_tasks example_env ?d) = [''Invalid crontab field'']"
    using reload_skips_bad_rows [of example_env ?d, THEN conjunct2, THEN conjunct1]
    by (simp only: f)
  have b: "map (\<lambda>k. fst (get_enabled_tasks example_env ?d) k \<noteq> None) [''a'', ''b'', ''c'', ''d'', ''e'']
     = [True, True, False, True, True]"
    by code_simp
  from a b show ?thesis by (rule conjI)
qed


section \<open>The change clock\<close>

text \<open>A flush that succeeds has run one \<^verbatim>\<open>after_\<close> handler on the committed state.\<close>

lemma flush_committed:
  assumes "flush env now ch t = Inr t'"
  shows "committed t' = update_last_updated_at now (committed t)"
  using assms
  by (cases ch)
     (auto simp: after_insert_handler_def after_update_handler_def after_delete_handler_def
           split: sum.splits)

lemma update_last_updated_at_fields:
  "celery_tasks_schedule (update_last_updated_at now d) = celery_tasks_schedule d"
  "celery_tasks_schedule_meta (update_last_updated_at now d)
     = (case celery_tasks_schedule_meta d of None \<Rightarrow> None | Some old \<Rightarrow> Some now)"
  by (simp_all add: update_last_updated_at_def split: option.splits)

text \<open>
  Claim C3, as stated: every insert, update or delete of a schedule row updates the
  change clock, in the transaction of the data change. Two runs of the code say
  otherwise. \<^verbatim>\<open>bulk_insert\<close> stores a row and leaves the clock at 100. A flush
  of an inserted object at time 200 sets the committed clock to 200 while the row is
  still pending, and the clock stays at 200 when the transaction of the row is rolled
  back: the clock was written in another transaction.
\<close>

theorem clock_bump_counterexample:
  "bulk_insert [example_row ''send_email'' ''send_email'' ''* * * * *'']
       \<lparr>celery_tasks_schedule = [], celery_tasks_schedule_meta = Some 100\<rparr>
     = Inr \<lparr>celery_tasks_schedule = [(1, example_row ''send_email'' ''send_email'' ''* * * * *'')],
            celery_tasks_schedule_meta = Some 100\<rparr>
   \<and> flush example_env 200 (OrmInsert (example_row ''send_email'' ''send_email'' ''* * * * *''))
         (begin_txn \<lparr>celery_tasks_schedule = [], celery_tasks_schedule_meta = Some 100\<rparr>)
     = Inr \<lparr>committed = \<lparr>celery_tasks_schedule = [], celery_tasks_schedule_meta = Some 200\<rparr>,
            pending = [(1, example_row ''send_email'' ''send_email'' ''* * * * *'')]\<rparr>
   \<and> rollback \<lparr>committed = \<lparr>celery_tasks_schedule = [], celery_tasks_schedule_meta = Some 200\<rparr>,
            pending = [(1, example_row ''send_email'' ''send_email'' ''* * * * *'')]\<rparr>
     = \<lparr>celery_tasks_schedule = [], celery_tasks_schedule_meta = Some 200\<rparr>"
  by code_simp

text \<open>
  Claim C3, amended. Every insert, update or delete of a schedule row that is flushed
  through the ORM sets the change clock, when its row exists, to the current time. The
  clock is written in a transaction of its own: it is committed when the flush ends,
  before the data change is, and stays so whether the transaction of the data change
  commits or rolls back. \<^verbatim>\<open>bulk_insert\<close> and the \<^verbatim>\<open>DELETE\<close> statement of
  \<^verbatim>\<open>CeleryTasksScheduleModel.delete\<close> leave the clock as it is.
\<close>

theorem clock_bump_own_transaction:
  "(flush env now ch t = Inr t' \<longrightarrow>
      celery_tasks_schedule_meta (committed t')
        = (case celery_tasks_schedule_meta (committed t) of None \<Rightarrow> None | Some old \<Rightarrow> Some now)
      \<and> celery_tasks_schedule (committed t') = celery_tasks_schedule (committed t)
      \<and> celery_tasks_schedule_meta (rollback t') = celery_tasks_schedule_meta (committed t')
      \<and> celery_tasks_schedule (rollback t') = celery_tasks_schedule (committed t)
      \<and> celery_tasks_schedule_meta (commit t') = celery_tasks_schedule_meta (committed t')
      \<and> celery_tasks_schedule (commit t') = pending t')
   \<and> (orm_write env now ch d = Inr d' \<longrightarrow>
        celery_tasks_schedule_meta d'
          = (case celery_tasks_schedule_meta d of None \<Rightarrow> None | Some old \<Rightarrow> Some now))
   \<and> (bulk_insert data d = Inr d' \<longrightarrow> celery_tasks_schedule_meta d' = celery_tasks_schedule_meta d)
   \<and> celery_tasks_schedule_meta (schedule_delete tasks d) = celery_tasks_schedule_meta d"
proof (intro conjI impI)
  assume f: "flush env now ch t = Inr t'"
  note c = flush_committed [OF f]
  show "celery_tasks_schedule_meta (committed t')
        = (case celery_tasks_schedule_meta (committed t) of None \<Rightarrow> None | Some old \<Rightarrow> Some now)"
    by (simp add: c update_last_updated_at_fields)
  show "celery_tasks_schedule (committed t') = celery_tasks_schedule (committed t)"
    by (simp add: c update_last_updated_at_fields)
  show "celery_tasks_schedule_meta (rollback t') = celery_tasks_schedule_meta (committed t')"
    by (simp add: rollback_def)
  show "celery_tasks_schedule (rollback t') = celery_tasks_schedule (committed t)"
    by (simp add: rollback_def c update_last_updated_at_fields)
  show "celery_tasks_schedule_meta (commit t') = celery_tasks_schedule_meta (committed t')"
    by (simp add: commit_def)
  show "celery_tasks_schedule (commit t') = pending t'"
    by (simp add: commit_def)
next
  assume w: "orm_write env now ch d = Inr d'"
  then obtain t' where f: "flush env now ch (begin_txn d) = Inr t'" and d': "d' = commit t'"
    by (auto simp: orm_write_def split: sum.splits)
  from flush_committed [OF f] d'
  show "celery_tasks_schedule_meta d'
          = (case celery_tasks_schedule_meta d of None \<Rightarrow> None | Some old \<Rightarrow> Some now)"
    by (simp add: commit_def begin_txn_def update_last_updated_at_fields)
next
  assume "bulk_insert data d = Inr d'"
  then show "celery_tasks_schedule_meta d' = celery_tasks_schedule_meta d"
    by (auto simp: bulk_insert_def Let_def split: if_splits sum.splits)
next
  show "celery_tasks_schedule_meta (schedule_delete tasks d) = celery_tasks_schedule_meta d"
    by (simp add: schedule_delete_def)
qed

text \<open>An insert through the ORM at time 200, the clock at 100 before.\<close>

theorem clock_bump_own_transaction_witness:
  "orm_write example_env 200 (OrmInsert (example_row ''send_email'' ''send_email'' ''* * * * *''))
       \<lparr>celery_tasks_schedule = [], celery_tasks_schedule_meta = Some 100\<rparr>
     = Inr \<lparr>celery_tasks_schedule = [(1, example_row ''send_email'' ''send_email'' ''* * * * *'')],
            celery_tasks_schedule_meta = Some 200\<rparr>
   \<and> celery_tasks_schedule_meta
        \<lparr>celery_tasks_schedule = [(1, example_row ''send_email'' ''send_email'' ''* * * * *'')],
         celery_tasks_schedule_meta = Some 200\<rparr> = Some 200"
proof -
  have h: "orm_write example_env 200 (OrmInsert (example_row ''send_email'' ''send_email'' ''* * * * *''))
       \<lparr>celery_tasks_schedule = [], celery_tasks_schedule_meta = Some 100\<rparr>
     = Inr \<lparr>celery_tasks_schedule = [(1, example_row ''send_email'' ''send_email'' ''* * * * *'')],
            celery_tasks_schedule_meta = Some 200\<rparr>"
    by code_simp
  have k: "celery_tasks_schedule_meta
        \<lparr>celery_tasks_schedule = [(1, example_row ''send_email'' ''send_email'' ''* * * * *'')],
         celery_tasks_schedule_meta = Some 200\<rparr> = Some 200"
    using clock_bump_own_transaction [THEN conjunct2, THEN conjunct1, THEN mp, OF h]
    by simp
  from h k show ?thesis by (rule conjI)
qed


section \<open>The schema bootstrap\<close>

text \<open>A sleep is at most the capped exponential.\<close>

lemma backoff_bound:
  "get_exponential_backoff_interval 10 i 1000 True r \<le> min 1000 (10 * 2 ^ i)"
proof -
  define m :: nat where "m = min 1000 (10 * 2 ^ i)"
  have "r mod (m + 1) < m + 1"
    by (rule mod_less_divisor) simp
  then have "r mod (m + 1) \<le> m" by simp
  then show ?thesis
    unfolding get_exponential_backoff_interval_def Let_def m_def [symmetric] by simp
qed

text \<open>One turn of the loop: it stops, or it sleeps and goes on with one retry more.\<close>

lemma loop_stop:
  assumes "c n = None \<or> (\<exists>e. c n = Some e \<and> (\<not> is_DatabaseError e \<or> \<not> r < 10))"
  shows "prepare_models_loop c rnd r n sl = \<lparr>raised = c n, calls = n + 1, sleeps = sl\<rparr>"
  using assms
  by (subst prepare_models_loop.simps)
     (auto simp: PREPARE_MODELS_MAX_RETRIES_def split: option.splits)

lemma loop_retry:
  assumes "c n = Some e" and "is_DatabaseError e" and "r < 10"
  shows "prepare_models_loop c rnd r n sl
           = prepare_models_loop c rnd (r + 1) (n + 1)
               (sl @ [get_exponential_backoff_interval 10 r 1000 True (rnd r)])"
  using assms
  by (subst prepare_models_loop.simps) (simp add: PREPARE_MODELS_MAX_RETRIES_def)

text \<open>
  The loop entered with \<open>r\<close> retries done, \<open>r\<close> calls made and \<open>r\<close> sleeps slept: it
  makes at most 11 calls in all, the exception it raises is the outcome of its last
  call, every earlier call raised a database error, and it raises a database error
  only from the eleventh call.
\<close>

lemma loop_props:
  assumes "length sl = r" and "r \<le> 10"
  shows "let b = prepare_models_loop c rnd r r sl in
     r < calls b \<and> calls b \<le> 11 \<and> length (sleeps b) + 1 = calls b
     \<and> raised b = c (calls b - 1)
     \<and> (\<forall>j. r \<le> j \<and> j + 1 < calls b \<longrightarrow> (\<exists>e. c j = Some e \<and> is_DatabaseError e))
     \<and> (\<forall>e. raised b = Some e \<and> is_DatabaseError e \<longrightarrow> calls b = 11)
     \<and> take r (sleeps b) = sl
     \<and> (\<forall>i. r \<le> i \<and> i < length (sleeps b) \<longrightarrow>
           sleeps b ! i = get_exponential_backoff_interval 10 i 1000 True (rnd i))"
  using assms
proof (induction "10 - r" arbitrary: r sl)
  case 0
  then have r: "r = 10" by simp
  have "c r = None \<or> (\<exists>e. c r = Some e \<and> (\<not> is_DatabaseError e \<or> \<not> r < 10))"
    using r by (cases "c r") simp_all
  then have eq: "prepare_models_loop c rnd r r sl = \<lparr>raised = c r, calls = r + 1, sleeps = sl\<rparr>"
    by (rule loop_stop)
  show ?case
    unfolding eq Let_def using r "0.prems"(1) by auto
next
  case (Suc k)
  then have lt: "r < 10" by simp
  let ?sl = "sl @ [get_exponential_backoff_interval 10 r 1000 True (rnd r)]"
  show ?case
  proof (cases "\<exists>e. c r = Some e \<and> is_DatabaseError e")
    case False
    then have "c r = None \<or> (\<exists>e. c r = Some e \<and> (\<not> is_DatabaseError e \<or> \<not> r < 10))"
      by (cases "c r") simp_all
    then have eq: "prepare_models_loop c rnd r r sl = \<lparr>raised = c r, calls = r + 1, sleeps = sl\<rparr>"
      by (rule loop_stop)
    have nodb: "\<not> (c r = Some e \<and> is_DatabaseError e)" for e
      using False by blast
    show ?thesis
      unfolding eq Let_def using Suc.prems(1) nodb lt by auto
  next
    case True
    then obtain e where e: "c r = Some e" "is_DatabaseError e" by blast
    define b where "b = prepare_models_loop c rnd (r + 1) (r + 1) ?sl"
    have eq: "prepare_models_loop c rnd r r sl = b"
      unfolding b_def using e lt by (rule loop_retry)
    have len: "length ?sl = r + 1" using Suc.prems(1) by simp
    have le: "r + 1 \<le> 10" using lt by simp
    have k: "k = 10 - (r + 1)" using Suc.hyps(2) by simp
    have IH: "let b = prepare_models_loop c rnd (r + 1) (r + 1) ?sl in
       r + 1 < calls b \<and> calls b \<le> 11 \<and> length (sleeps b) + 1 = calls b
       \<and> raised b = c (calls b - 1)
       \<and> (\<forall>j. r + 1 \<le> j \<and> j + 1 < calls b \<longrightarrow> (\<exists>e. c j = Some e \<and> is_DatabaseError e))
       \<and> (\<forall>e. raised b = Some e \<and> is_DatabaseError e \<longrightarrow> calls b = 11)
       \<and> take (r + 1) (sleeps b) = ?sl
       \<and> (\<forall>i. r + 1 \<le> i \<and> i < length (sleeps b) \<longrightarrow>
             sleeps b ! i = get_exponential_backoff_interval 10 i 1000 True (rnd i))"
      by (rule Suc.hyps(1) [OF k len le])
    have b1: "r + 1 < calls b" and b2: "calls b \<le> 11" and b3: "length (sleeps b) + 1 = calls b"
      and b4: "raised b = c (calls b - 1)"
      and b5: "\<forall>j. r + 1 \<le> j \<and> j + 1 < calls b \<longrightarrow> (\<exists>e. c j = Some e \<and> is_DatabaseError e)"
      and b6: "\<forall>e. raised b = Some e \<and> is_DatabaseError e \<longrightarrow> calls b = 11"
      and b7: "take (r + 1) (sleeps b) = ?sl"
      and b8: "\<forall>i. r + 1 \<le> i \<and> i < length (sleeps b) \<longrightarrow>
           sleeps b ! i = get_exponential_backoff_interval 10 i 1000 True (rnd i)"
      using IH unfolding b_def [symmetric] Let_def by blast+
    have c1: "r < calls b" using b1 by simp
    have c5: "\<forall>j. r \<le> j \<and> j + 1 < calls b \<longrightarrow> (\<exists>e. c j = Some e \<and> is_DatabaseError e)"
    proof (intro allI impI)
      fix j assume j: "r \<le> j \<and> j + 1 < calls b"
      show "\<exists>e. c j = Some e \<and> is_DatabaseError e"
      proof (cases "j = r")
        case True
        with e show ?thesis by blast
      next
        case False
        with j have "r + 1 \<le> j \<and> j + 1 < calls b" by simp
        with b5 show ?thesis by blast
      qed
    qed
    have c7: "take r (sleeps b) = sl"
    proof -
      have "take r (take (r + 1) (sleeps b)) = take r ?sl" by (simp only: b7)
      then show ?thesis using Suc.prems(1) by (simp add: min_def)
    qed
    have rth: "sleeps b ! r = get_exponential_backoff_interval 10 r 1000 True (rnd r)"
    proof -
      have "r < length (sleeps b)" using b1 b3 by simp
      then have "sleeps b ! r = take (r + 1) (sleeps b) ! r" by simp
      also have "\<dots> = ?sl ! r" by (simp only: b7)
      also have "\<dots> = get_exponential_backoff_interval 10 r 1000 True (rnd r)"
        using Suc.prems(1) by (simp add: nth_append)
      finally show ?thesis .
    qed
    have c8: "\<forall>i. r \<le> i \<and> i < length (sleeps b) \<longrightarrow>
           sleeps b ! i = get_exponential_backoff_interval 10 i 1000 True (rnd i)"
    proof (intro allI impI)
      fix i assume i: "r \<le> i \<and> i < length (sleeps b)"
      show "sleeps b ! i = get_exponential_backoff_interval 10 i 1000 True (rnd i)"
      proof (cases "i = r")
        case True
        with rth show ?thesis by simp
      next
        case False
        with i have "r + 1 \<le> i \<and> i < length (sleeps b)" by simp
        with b8 show ?thesis by blast
      qed
    qed
    show ?thesis
      unfolding eq Let_def
      by (intro conjI) (rule c1, rule b2, rule b3, rule b4, rule c5, rule b6, rule c7, rule c8)
  qed
qed

text \<open>
  Claim C9, as stated: the schema creation is attempted up to 10 times. The loop
  compares \<^verbatim>\<open>retries\<close>, which starts at 0, with \<^verbatim>\<open>PREPARE_MODELS_MAX_RETRIES\<close> after a
  failed call: it allows 10 retries after the first call. When the first ten calls
  of \<^verbatim>\<open>create_all\<close> fail, an eleventh is made, and its success is the success of the
  bootstrap; when every call fails, the error is raised after eleven calls, not ten.
\<close>

theorem prepare_models_eleven_calls_counterexample:
  "prepare_models_loop (\<lambda>n. if n < 10 then Some (DatabaseError ''table exists'') else None)
       (\<lambda>i. 0) 0 0 []
     = \<lparr>raised = None, calls = 11, sleeps = [0, 0, 0, 0, 0, 0, 0, 0, 0, 0]\<rparr>
   \<and> prepare_models_loop (\<lambda>n. Some (DatabaseError ''no connection'')) (\<lambda>i. 0) 0 0 []
     = \<lparr>raised = Some (DatabaseError ''no connection''), calls = 11,
        sleeps = [0, 0, 0, 0, 0, 0, 0, 0, 0, 0]\<rparr>
   \<and> \<not> (11::nat) \<le> 10"
  by code_simp

text \<open>
  Claim C9, amended. \<^verbatim>\<open>_prepare_models\<close> retries the schema creation on a database
  error up to 10 times after the first attempt, 11 attempts at most, sleeping before
  each retry the exponential backoff of base 10 ms and cap 1000 ms with full jitter.
  The loop stops at the first attempt that succeeds. When the eleventh attempt fails
  too, its error is propagated, and \<^verbatim>\<open>init_last_updated_at\<close> is not reached.
\<close>

theorem prepare_models_retries:
  "calls (prepare_models_loop c rnd 0 0 []) \<le> PREPARE_MODELS_MAX_RETRIES + 1
   \<and> length (sleeps (prepare_models_loop c rnd 0 0 [])) + 1 = calls (prepare_models_loop c rnd 0 0 [])
   \<and> (\<forall>i < length (sleeps (prepare_models_loop c rnd 0 0 [])).
         sleeps (prepare_models_loop c rnd 0 0 []) ! i
           = get_exponential_backoff_interval 10 i 1000 True (rnd i)
         \<and> sleeps (prepare_models_loop c rnd 0 0 []) ! i \<le> min 1000 (10 * 2 ^ i))
   \<and> (k \<le> 10 \<and> c k = None \<and> (\<forall>j < k. \<exists>e. c j = Some e \<and> is_DatabaseError e) \<longrightarrow>
         raised (prepare_models_loop c rnd 0 0 []) = None
         \<and> calls (prepare_models_loop c rnd 0 0 []) = k + 1)
   \<and> ((\<forall>j \<le> 10. \<exists>e. c j = Some e \<and> is_DatabaseError e) \<longrightarrow>
         raised (prepare_models_loop c rnd 0 0 []) = c 10
         \<and> calls (prepare_models_loop c rnd 0 0 []) = 11
         \<and> length (sleeps (prepare_models_loop c rnd 0 0 [])) = 10)
   \<and> (raised (fst (prepare_models c rnd now d)) \<noteq> None \<longrightarrow> snd (prepare_models c rnd now d) = d)
   \<and> (raised (fst (prepare_models c rnd now d)) = None \<longrightarrow>
         snd (prepare_models c rnd now d) = init_last_updated_at now d)"
proof -
  define b where "b = prepare_models_loop c rnd 0 0 []"
  have l0: "length ([] :: nat list) = 0" by simp
  have z: "(0::nat) \<le> 10" by simp
  note lp = loop_props [OF l0 z, where c = c and rnd = rnd, unfolded Let_def, folded b_def]
  have p1: "0 < calls b" by (rule lp [THEN conjunct1])
  have p2: "calls b \<le> 11" by (rule lp [THEN conjunct2, THEN conjunct1])
  have p3: "length (sleeps b) + 1 = calls b"
    by (rule lp [THEN conjunct2, THEN conjunct2, THEN conjunct1])
  have p4: "raised b = c (calls b - 1)"
    by (rule lp [THEN conjunct2, THEN conjunct2, THEN conjunct2, THEN conjunct1])
  have p5: "\<forall>j. 0 \<le> j \<and> j + 1 < calls b \<longrightarrow> (\<exists>e. c j = Some e \<and> is_DatabaseError e)"
    by (rule lp [THEN conjunct2, THEN conjunct2, THEN conjunct2, THEN conjunct2, THEN conjunct1])
  have p6: "\<forall>e. raised b = Some e \<and> is_DatabaseError e \<longrightarrow> calls b = 11"
    by (rule lp [THEN conjunct2, THEN conjunct2, THEN conjunct2, THEN conjunct2, THEN conjunct2,
                 THEN conjunct1])
  have p7: "\<forall>i. 0 \<le> i \<and> i < length (sleeps b) \<longrightarrow>
       sleeps b ! i = get_exponential_backoff_interval 10 i 1000 True (rnd i)"
    by (rule lp [THEN conjunct2, THEN conjunct2, THEN conjunct2, THEN conjunct2, THEN conjunct2,
                 THEN conjunct2, THEN conjunct2])
  have s: "sleeps b ! i = get_exponential_backoff_interval 10 i 1000 True (rnd i)
         \<and> sleeps b ! i \<le> min 1000 (10 * 2 ^ i)" if "i < length (sleeps b)" for i
  proof -
    from p7 that
    have e: "sleeps b ! i = get_exponential_backoff_interval 10 i 1000 True (rnd i)" by simp
    have "get_exponential_backoff_interval 10 i 1000 True (rnd i) \<le> min 1000 (10 * 2 ^ i)"
      by (rule backoff_bound)
    then have "sleeps b ! i \<le> min 1000 (10 * 2 ^ i)" by (simp only: e)
    with e show ?thesis by (rule conjI)
  qed
  have first: "raised b = None \<and> calls b = k + 1"
    if k: "k \<le> 10" "c k = None" "\<forall>j < k. \<exists>e. c j = Some e \<and> is_DatabaseError e"
  proof -
    have "\<not> calls b - 1 < k"
    proof
      assume lt: "calls b - 1 < k"
      with k(3) obtain e where e: "c (calls b - 1) = Some e" "is_DatabaseError e" by blast
      with p4 p6 have "calls b = 11" by simp
      with lt k(1) show False by simp
    qed
    moreover have "\<not> k < calls b - 1"
    proof
      assume "k < calls b - 1"
      then have "k + 1 < calls b" by simp
      with p5 obtain e where "c k = Some e" by blast
      with k(2) show False by simp
    qed
    ultimately have "calls b - 1 = k" by simp
    with p1 p4 k(2) show ?thesis by simp
  qed
  have last: "raised b = c 10 \<and> calls b = 11 \<and> length (sleeps b) = 10"
    if a: "\<forall>j \<le> 10. \<exists>e. c j = Some e \<and> is_DatabaseError e"
  proof -
    from p2 have "calls b - 1 \<le> 10" by simp
    with a obtain e where "c (calls b - 1) = Some e" "is_DatabaseError e" by blast
    with p4 p6 have "calls b = 11" by simp
    with p3 p4 show ?thesis by simp
  qed
  have pm: "(raised (fst (prepare_models c rnd now d)) \<noteq> None \<longrightarrow> snd (prepare_models c rnd now d) = d)
   \<and> (raised (fst (prepare_models c rnd now d)) = None \<longrightarrow>
         snd (prepare_models c rnd now d) = init_last_updated_at now d)"
    by (auto simp: prepare_models_def Let_def split: option.splits)
  have one: "calls b \<le> PREPARE_MODELS_MAX_RETRIES + 1"
    using p2 by (simp add: PREPARE_MODELS_MAX_RETRIES_def)
  have three: "\<forall>i < length (sleeps b).
         sleeps b ! i = get_exponential_backoff_interval 10 i 1000 True (rnd i)
         \<and> sleeps b ! i \<le> min 1000 (10 * 2 ^ i)"
    using s by blast
  have four: "k \<le> 10 \<and> c k = None \<and> (\<forall>j < k. \<exists>e. c j = Some e \<and> is_DatabaseError e) \<longrightarrow>
         raised b = None \<and> calls b = k + 1"
    using first by blast
  have five: "(\<forall>j \<le> 10. \<exists>e. c j = Some e \<and> is_DatabaseError e) \<longrightarrow>
         raised b = c 10 \<and> calls b = 11 \<and> length (sleeps b) = 10"
    using last by blast
  show ?thesis
    unfolding b_def [symmetric]
    by (intro conjI) (rule one, rule p3, rule three, rule four, rule five,
                      rule pm [THEN conjunct1], rule pm [THEN conjunct2])
qed

text \<open>Two failures, then success: three calls, two sleeps. Failure throughout: eleven calls.\<close>

theorem prepare_models_retries_witness:
  "prepare_models_loop (\<lambda>n. if n < 2 then Some (DatabaseError ''table exists'') else None) (\<lambda>i. 7) 0 0 []
     = \<lparr>raised = None, calls = 3, sleeps = [7, 7]\<rparr>
   \<and> raised (prepare_models_loop (\<lambda>n. Some (DatabaseError ''no connection'')) (\<lambda>i. 1000000) 0 0 [])
       = Some (DatabaseError ''no connection'')
   \<and> calls (prepare_models_loop (\<lambda>n. Some (DatabaseError ''no connection'')) (\<lambda>i. 1000000) 0 0 []) = 11"
proof -
  have a: "prepare_models_loop (\<lambda>n. if n < 2 then Some (DatabaseError ''table exists'') else None) (\<lambda>i. 7) 0 0 []
     = \<lparr>raised = None, calls = 3, sleeps = [7, 7]\<rparr>"
    by code_simp
  have h: "\<forall>j \<le> (10::nat). \<exists>e. (\<lambda>n. Some (DatabaseError ''no connection'')) j = Some e \<and> is_DatabaseError e"
    by simp
  have b: "raised (prepare_models_loop (\<lambda>n. Some (DatabaseError ''no connection'')) (\<lambda>i. 1000000) 0 0 [])
       = Some (DatabaseError ''no connection'')
   \<and> calls (prepare_models_loop (\<lambda>n. Some (DatabaseError ''no connection'')) (\<lambda>i. 1000000) 0 0 []) = 11"
    using prepare_models_retries [where c = "\<lambda>n. Some (DatabaseError ''no connection'')" and rnd = "\<lambda>i. 1000000",
        THEN conjunct2, THEN conjunct2, THEN conjunct2, THEN conjunct2, THEN conjunct1, THEN mp, OF h]
    by simp
  from a b show ?thesis by (rule conjI)
qed

end
